theory Spec2Isabelle
  imports Complex_Main "HOL-Library.Char_ord" "HOL-Library.List_Lexorder"
begin

section \<open>Values and exceptions\<close>

text \<open>
  The upload endpoint works on whatever \<open>json.loads\<close> returns. Numbers are only passed
  through (no arithmetic is done on them). A dict is the list of its items, read with
  \<open>map_of\<close>.
\<close>

datatype json =
    JNull
  | JBool bool
  | JNum real
  | JStr string
  | JArr "json list"
  | JObj "(string \<times> json) list"

text \<open>
  The exceptions the source can meet. \<open>HTTPException status detail cause\<close> carries the
  status code, the fixed part of the detail text and, for
  \<open>f"Error processing file: {str(e)}"\<close>, the exception \<open>e\<close> whose text is appended.
  \<open>PyException text cause\<close> is the plain \<open>Exception\<close> raised by \<open>get_db_connection\<close>.
\<close>

datatype py_error =
    AttributeError
  | UnicodeDecodeError
  | JSONDecodeError
  | OperationalError
  | IntegrityError
  | DatabaseError
  | PyException string "py_error option"
  | HTTPException nat string "py_error option"

definition sbind :: "'e + 'a \<Rightarrow> ('a \<Rightarrow> 'e + 'b) \<Rightarrow> 'e + 'b" where
  "sbind m f = (case m of Inl e \<Rightarrow> Inl e | Inr a \<Rightarrow> f a)"

section \<open>Record transcoding\<close>

text \<open>
  \<open>obj.get(key, default)\<close>: defined on a dict only. On \<open>None\<close>, a number, a string, a
  bool or a list the attribute lookup raises \<open>AttributeError\<close>. A key that is present
  yields its value, whatever it is; the default is used for an absent key only.
\<close>

definition py_get :: "json \<Rightarrow> string \<Rightarrow> json \<Rightarrow> py_error + json" where
  "py_get obj k d =
     (case obj of
        JObj kvs \<Rightarrow> Inr (case map_of kvs k of Some v \<Rightarrow> v | None \<Rightarrow> d)
      | _ \<Rightarrow> Inl AttributeError)"

text \<open>\<open>record.get(k)\<close>, \<open>record.get(a, {}).get(k)\<close> and \<open>record.get(a, {}).get(b, {}).get(k)\<close>.\<close>

definition get1 :: "json \<Rightarrow> string \<Rightarrow> py_error + json" where
  "get1 r k = py_get r k JNull"

definition get2 :: "json \<Rightarrow> string \<Rightarrow> string \<Rightarrow> py_error + json" where
  "get2 r a k = sbind (py_get r a (JObj [])) (\<lambda>x. py_get x k JNull)"

definition get3 :: "json \<Rightarrow> string \<Rightarrow> string \<Rightarrow> string \<Rightarrow> py_error + json" where
  "get3 r a b k =
     sbind (py_get r a (JObj [])) (\<lambda>x. sbind (py_get x b (JObj [])) (\<lambda>y. py_get y k JNull))"

text \<open>The 26 data columns of \<open>session_records\<close>, in the order of the INSERT statement.\<close>

record flat_row =
  session_id :: json
  phase :: json
  area :: json
  timestamp :: json
  speaker :: json
  text_col :: json
  hmd_position_x :: json
  hmd_position_y :: json
  hmd_position_z :: json
  hmd_gaze_x :: json
  hmd_gaze_y :: json
  hmd_gaze_z :: json
  hmd_gaze_actor :: json
  hmd_movement_speed :: json
  controller_r_x :: json
  controller_r_y :: json
  controller_r_z :: json
  controller_l_x :: json
  controller_l_y :: json
  controller_l_z :: json
  controller_r_actor :: json
  controller_l_actor :: json
  controller_r_speed :: json
  controller_l_speed :: json
  user_emotion :: json
  emotion_window_flag :: json

text \<open>
  The parameter tuple of \<open>cursor.execute\<close> in \<open>upload_session_data\<close>. Python evaluates
  the 26 expressions from left to right before the call; the first one that raises ends
  the evaluation. The SQLite and the PostgreSQL branch build the same tuple.
\<close>

definition flatten :: "json \<Rightarrow> py_error + flat_row" where
  "flatten r =
     sbind (get1 r ''session_id'') (\<lambda>c1.
     sbind (get1 r ''phase'') (\<lambda>c2.
     sbind (get1 r ''area'') (\<lambda>c3.
     sbind (get1 r ''timestamp'') (\<lambda>c4.
     sbind (get2 r ''conversation_data'' ''speaker'') (\<lambda>c5.
     sbind (get2 r ''conversation_data'' ''text'') (\<lambda>c6.
     sbind (get3 r ''hmd_data'' ''position'' ''x'') (\<lambda>c7.
     sbind (get3 r ''hmd_data'' ''position'' ''y'') (\<lambda>c8.
     sbind (get3 r ''hmd_data'' ''position'' ''z'') (\<lambda>c9.
     sbind (get3 r ''hmd_data'' ''gaze_vector'' ''x'') (\<lambda>c10.
     sbind (get3 r ''hmd_data'' ''gaze_vector'' ''y'') (\<lambda>c11.
     sbind (get3 r ''hmd_data'' ''gaze_vector'' ''z'') (\<lambda>c12.
     sbind (get2 r ''hmd_data'' ''gaze_actor'') (\<lambda>c13.
     sbind (get2 r ''hmd_data'' ''movement_speed'') (\<lambda>c14.
     sbind (get3 r ''controller_data'' ''r_position'' ''x'') (\<lambda>c15.
     sbind (get3 r ''controller_data'' ''r_position'' ''y'') (\<lambda>c16.
     sbind (get3 r ''controller_data'' ''r_position'' ''z'') (\<lambda>c17.
     sbind (get3 r ''controller_data'' ''l_position'' ''x'') (\<lambda>c18.
     sbind (get3 r ''controller_data'' ''l_position'' ''y'') (\<lambda>c19.
     sbind (get3 r ''controller_data'' ''l_position'' ''z'') (\<lambda>c20.
     sbind (get2 r ''controller_data'' ''r_interacted_actor'') (\<lambda>c21.
     sbind (get2 r ''controller_data'' ''l_interacted_actor'') (\<lambda>c22.
     sbind (get2 r ''controller_data'' ''r_movement_speed'') (\<lambda>c23.
     sbind (get2 r ''controller_data'' ''l_movement_speed'') (\<lambda>c24.
     sbind (get1 r ''user_emotion'') (\<lambda>c25.
     sbind (get1 r ''emotion_window_flag'') (\<lambda>c26.
     Inr \<lparr> session_id = c1, phase = c2, area = c3, timestamp = c4,
           speaker = c5, text_col = c6,
           hmd_position_x = c7, hmd_position_y = c8, hmd_position_z = c9,
           hmd_gaze_x = c10, hmd_gaze_y = c11, hmd_gaze_z = c12,
           hmd_gaze_actor = c13, hmd_movement_speed = c14,
           controller_r_x = c15, controller_r_y = c16, controller_r_z = c17,
           controller_l_x = c18, controller_l_y = c19, controller_l_z = c20,
           controller_r_actor = c21, controller_l_actor = c22,
           controller_r_speed = c23, controller_l_speed = c24,
           user_emotion = c25, emotion_window_flag = c26 \<rparr>))))))))))))))))))))))))))"

text \<open>
  The dict built per row in \<open>download_session_with_nested_structure\<close>. It reads the 26
  data columns of the row and ignores \<open>id\<close> and \<open>created_at\<close>.
\<close>

definition unflatten :: "flat_row \<Rightarrow> json" where
  "unflatten row =
     JObj [
       (''session_id'', session_id row),
       (''phase'', phase row),
       (''area'', area row),
       (''timestamp'', timestamp row),
       (''conversation_data'', JObj [
          (''speaker'', speaker row),
          (''text'', text_col row)]),
       (''hmd_data'', JObj [
          (''position'', JObj [
             (''x'', hmd_position_x row),
             (''y'', hmd_position_y row),
             (''z'', hmd_position_z row)]),
          (''gaze_vector'', JObj [
             (''x'', hmd_gaze_x row),
             (''y'', hmd_gaze_y row),
             (''z'', hmd_gaze_z row)]),
          (''gaze_actor'', hmd_gaze_actor row),
          (''movement_speed'', hmd_movement_speed row)]),
       (''controller_data'', JObj [
          (''r_position'', JObj [
             (''x'', controller_r_x row),
             (''y'', controller_r_y row),
             (''z'', controller_r_z row)]),
          (''l_position'', JObj [
             (''x'', controller_l_x row),
             (''y'', controller_l_y row),
             (''z'', controller_l_z row)]),
          (''r_interacted_actor'', controller_r_actor row),
          (''l_interacted_actor'', controller_l_actor row),
          (''r_movement_speed'', controller_r_speed row),
          (''l_movement_speed'', controller_l_speed row)]),
       (''user_emotion'', user_emotion row),
       (''emotion_window_flag'', emotion_window_flag row)]"

subsection \<open>Paths into a nested record\<close>

fun get_path :: "json \<Rightarrow> string list \<Rightarrow> json option" where
  "get_path v [] = Some v"
| "get_path (JObj kvs) (k # ks) =
     (case map_of kvs k of None \<Rightarrow> None | Some v \<Rightarrow> get_path v ks)"
| "get_path _ (k # ks) = None"

definition keys_at :: "json \<Rightarrow> string list \<Rightarrow> string list option" where
  "keys_at v p =
     (case get_path v p of Some (JObj kvs) \<Rightarrow> Some (map fst kvs) | _ \<Rightarrow> None)"

definition leaf_paths :: "string list list" where
  "leaf_paths = [
     [''session_id''], [''phase''], [''area''], [''timestamp''],
     [''conversation_data'', ''speaker''], [''conversation_data'', ''text''],
     [''hmd_data'', ''position'', ''x''], [''hmd_data'', ''position'', ''y''],
     [''hmd_data'', ''position'', ''z''],
     [''hmd_data'', ''gaze_vector'', ''x''], [''hmd_data'', ''gaze_vector'', ''y''],
     [''hmd_data'', ''gaze_vector'', ''z''],
     [''hmd_data'', ''gaze_actor''], [''hmd_data'', ''movement_speed''],
     [''controller_data'', ''r_position'', ''x''], [''controller_data'', ''r_position'', ''y''],
     [''controller_data'', ''r_position'', ''z''],
     [''controller_data'', ''l_position'', ''x''], [''controller_data'', ''l_position'', ''y''],
     [''controller_data'', ''l_position'', ''z''],
     [''controller_data'', ''r_interacted_actor''], [''controller_data'', ''l_interacted_actor''],
     [''controller_data'', ''r_movement_speed''], [''controller_data'', ''l_movement_speed''],
     [''user_emotion''], [''emotion_window_flag'']]"

text \<open>
  A nested record in the sense of the data model: an object in which each of the seven
  sub-object keys is either absent or bound to an object.
\<close>

definition sub_ok :: "json \<Rightarrow> string list \<Rightarrow> bool" where
  "sub_ok r p = (case get_path r p of None \<Rightarrow> True | Some (JObj kvs) \<Rightarrow> True | Some _ \<Rightarrow> False)"

definition nested_record :: "json \<Rightarrow> bool" where
  "nested_record r =
     ((case r of JObj kvs \<Rightarrow> True | _ \<Rightarrow> False)
      \<and> sub_ok r [''conversation_data'']
      \<and> sub_ok r [''hmd_data'']
      \<and> sub_ok r [''hmd_data'', ''position'']
      \<and> sub_ok r [''hmd_data'', ''gaze_vector'']
      \<and> sub_ok r [''controller_data'']
      \<and> sub_ok r [''controller_data'', ''r_position'']
      \<and> sub_ok r [''controller_data'', ''l_position''])"


text \<open>The value a leaf path has in a record, \<open>null\<close> when the path is absent.\<close>

definition leaf_or_null :: "json \<Rightarrow> string list \<Rightarrow> json" where
  "leaf_or_null r p = (case get_path r p of Some v \<Rightarrow> v | None \<Rightarrow> JNull)"

definition flat_of :: "json \<Rightarrow> flat_row" where
  "flat_of r =
     \<lparr> session_id = leaf_or_null r [''session_id''],
       phase = leaf_or_null r [''phase''],
       area = leaf_or_null r [''area''],
       timestamp = leaf_or_null r [''timestamp''],
       speaker = leaf_or_null r [''conversation_data'', ''speaker''],
       text_col = leaf_or_null r [''conversation_data'', ''text''],
       hmd_position_x = leaf_or_null r [''hmd_data'', ''position'', ''x''],
       hmd_position_y = leaf_or_null r [''hmd_data'', ''position'', ''y''],
       hmd_position_z = leaf_or_null r [''hmd_data'', ''position'', ''z''],
       hmd_gaze_x = leaf_or_null r [''hmd_data'', ''gaze_vector'', ''x''],
       hmd_gaze_y = leaf_or_null r [''hmd_data'', ''gaze_vector'', ''y''],
       hmd_gaze_z = leaf_or_null r [''hmd_data'', ''gaze_vector'', ''z''],
       hmd_gaze_actor = leaf_or_null r [''hmd_data'', ''gaze_actor''],
       hmd_movement_speed = leaf_or_null r [''hmd_data'', ''movement_speed''],
       controller_r_x = leaf_or_null r [''controller_data'', ''r_position'', ''x''],
       controller_r_y = leaf_or_null r [''controller_data'', ''r_position'', ''y''],
       controller_r_z = leaf_or_null r [''controller_data'', ''r_position'', ''z''],
       controller_l_x = leaf_or_null r [''controller_data'', ''l_position'', ''x''],
       controller_l_y = leaf_or_null r [''controller_data'', ''l_position'', ''y''],
       controller_l_z = leaf_or_null r [''controller_data'', ''l_position'', ''z''],
       controller_r_actor = leaf_or_null r [''controller_data'', ''r_interacted_actor''],
       controller_l_actor = leaf_or_null r [''controller_data'', ''l_interacted_actor''],
       controller_r_speed = leaf_or_null r [''controller_data'', ''r_movement_speed''],
       controller_l_speed = leaf_or_null r [''controller_data'', ''l_movement_speed''],
       user_emotion = leaf_or_null r [''user_emotion''],
       emotion_window_flag = leaf_or_null r [''emotion_window_flag''] \<rparr>"

section \<open>The store and its backends\<close>

datatype backend = SQLite | PostgreSQL

text \<open>
  The environment \<open>get_db_connection\<close> reads: \<open>VERCEL\<close> set (with or without
  \<open>POSTGRES_URL\<close>), else \<open>USE_SQLITE\<close> set, else the local default.
\<close>

datatype deployment = Vercel "string option" | UseSqlite | LocalDefault

text \<open>
  A stored row: the 26 data columns, the key \<open>id\<close> and \<open>created_at\<close>, which the backend
  fills with its current timestamp in the text form \<open>YYYY-MM-DD HH:MM:SS\<close>.
\<close>

record db_row =
  row_id :: nat
  cols :: flat_row
  created_at :: string

text \<open>
  What lies outside the process: the environment, the committed table, the backend clock
  (\<open>now\<close>, and \<open>day_ago\<close> for \<open>now\<close> minus one day), how many connections were opened
  and how many were closed, and \<open>faults\<close>, the backend's verdict on the calls to come:
  each call to the driver consumes one entry, \<open>True\<close> makes that call raise. An empty
  script lets every call through.
\<close>

record world =
  deployment :: deployment
  rows :: "db_row list"
  next_id :: nat
  now :: string
  day_ago :: string
  conns_opened :: nat
  conns_closed :: nat
  faults :: "bool list"


text \<open>
  A connection with its open transaction: what was written and not yet committed. A
  connection that is dropped without \<open>commit\<close> takes its transaction with it.
\<close>

record conn =
  conn_backend :: backend
  pending_clear :: bool
  pending_rows :: "db_row list"

type_synonym 'a io = "world \<Rightarrow> (py_error + 'a) \<times> world"

definition returnM :: "'a \<Rightarrow> 'a io" where
  "returnM a w = (Inr a, w)"

definition raiseM :: "py_error \<Rightarrow> 'a io" where
  "raiseM e w = (Inl e, w)"

definition bindM :: "'a io \<Rightarrow> ('a \<Rightarrow> 'b io) \<Rightarrow> 'b io" where
  "bindM m f w = (case m w of (Inl e, w') \<Rightarrow> (Inl e, w') | (Inr a, w') \<Rightarrow> f a w')"

definition backend_call :: "py_error \<Rightarrow> unit io" where
  "backend_call e w =
     (case faults w of
        [] \<Rightarrow> (Inr (), w)
      | f # fs \<Rightarrow> (if f then Inl e else Inr (), w\<lparr>faults := fs\<rparr>))"

definition open_conn :: "backend \<Rightarrow> conn io" where
  "open_conn b =
     bindM (backend_call OperationalError) (\<lambda>_ w.
       (Inr \<lparr>conn_backend = b, pending_clear = False, pending_rows = []\<rparr>,
        w\<lparr>conns_opened := Suc (conns_opened w)\<rparr>))"

text \<open>
  \<open>get_db_connection\<close>. Under \<open>VERCEL\<close> the connection is tested with \<open>SELECT 1\<close> and any
  failure is wrapped in a plain \<open>Exception\<close>; the local default falls back to SQLite when
  \<open>psycopg2.connect\<close> raises \<open>OperationalError\<close>.
\<close>

definition get_db_connection :: "conn io" where
  "get_db_connection w =
     (case deployment w of
        Vercel None \<Rightarrow>
          (Inl (PyException ''POSTGRES_URL environment variable not set'' None), w)
      | Vercel (Some url) \<Rightarrow>
          (case bindM (open_conn PostgreSQL)
                  (\<lambda>c. bindM (backend_call DatabaseError) (\<lambda>_. returnM c)) w of
             (Inl e, w') \<Rightarrow>
               (Inl (PyException ''Failed to connect to Vercel Postgres: '' (Some e)), w')
           | (Inr c, w') \<Rightarrow> (Inr c, w'))
      | UseSqlite \<Rightarrow> open_conn SQLite w
      | LocalDefault \<Rightarrow>
          (case open_conn PostgreSQL w of
             (Inl e, w') \<Rightarrow> open_conn SQLite w'
           | (Inr c, w') \<Rightarrow> (Inr c, w')))"

text \<open>\<open>hasattr(conn, 'execute') and 'sqlite' in str(type(conn)).lower()\<close>\<close>

definition is_sqlite :: "conn \<Rightarrow> bool" where
  "is_sqlite c = (conn_backend c = SQLite)"

text \<open>
  One INSERT: the backend may reject the statement; \<open>session_id TEXT NOT NULL\<close> rejects a
  null \<open>session_id\<close>; otherwise the row joins the connection's transaction with the next
  key and the current timestamp.
\<close>

definition execute_insert :: "conn \<Rightarrow> flat_row \<Rightarrow> conn io" where
  "execute_insert c row =
     bindM (backend_call DatabaseError) (\<lambda>_ w.
       if session_id row = JNull then (Inl IntegrityError, w)
       else (Inr (c\<lparr>pending_rows := pending_rows c @
                     [\<lparr>row_id = next_id w + length (pending_rows c), cols = row,
                       created_at = now w\<rparr>]\<rparr>), w))"


definition commit :: "conn \<Rightarrow> conn io" where
  "commit c =
     bindM (backend_call DatabaseError) (\<lambda>_ w.
       (Inr (c\<lparr>pending_clear := False, pending_rows := []\<rparr>),
        w\<lparr>rows := (if pending_clear c then [] else rows w) @ pending_rows c,
          next_id := next_id w + length (pending_rows c)\<rparr>))"

definition close :: "conn \<Rightarrow> unit io" where
  "close c w = (Inr (), w\<lparr>conns_closed := Suc (conns_closed w)\<rparr>)"

text \<open>A SELECT: the backend may fail; otherwise the statement is evaluated on the table.\<close>

definition query :: "(world \<Rightarrow> py_error + 'a) \<Rightarrow> 'a io" where
  "query q = bindM (backend_call DatabaseError) (\<lambda>_ w. (q w, w))"

subsection \<open>The statements\<close>

definition sid :: "db_row \<Rightarrow> json" where
  "sid r = session_id (cols r)"

text \<open>\<open>SELECT COUNT(*) FROM session_records\<close>\<close>

definition count_all :: "world \<Rightarrow> py_error + nat" where
  "count_all w = Inr (length (rows w))"

text \<open>\<open>SELECT COUNT(DISTINCT session_id) FROM session_records\<close>\<close>

definition count_distinct_sessions :: "world \<Rightarrow> py_error + nat" where
  "count_distinct_sessions w = Inr (length (remdups (map sid (rows w))))"

text \<open>
  \<open>LIMIT ? OFFSET ?\<close> with the caller's integers. A bound outside 64 bits is refused by
  both drivers; SQLite reads a negative limit as no limit and a negative offset as zero,
  PostgreSQL refuses both.
\<close>

definition int64_ok :: "int \<Rightarrow> bool" where
  "int64_ok x = (- (2 ^ 63) \<le> x \<and> x < 2 ^ 63)"

definition sql_limit_offset :: "backend \<Rightarrow> int \<Rightarrow> int \<Rightarrow> 'a list \<Rightarrow> py_error + 'a list" where
  "sql_limit_offset b limit offset xs =
     (if \<not> (int64_ok limit \<and> int64_ok offset) then Inl DatabaseError
      else case b of
        SQLite \<Rightarrow>
          Inr (if limit < 0 then drop (nat offset) xs else take (nat limit) (drop (nat offset) xs))
      | PostgreSQL \<Rightarrow>
          if limit < 0 \<or> offset < 0 then Inl DatabaseError
          else Inr (take (nat limit) (drop (nat offset) xs)))"

text \<open>
  What Python receives for a timestamp column: \<open>sqlite3\<close> hands over the stored text,
  \<open>psycopg2\<close> a \<open>datetime\<close> object (carried here with its \<open>str()\<close> text).
\<close>

datatype pyval = PyNone | PyStr string | PyDateTime string

definition deliver_timestamp :: "backend \<Rightarrow> string \<Rightarrow> pyval" where
  "deliver_timestamp b s = (case b of SQLite \<Rightarrow> PyStr s | PostgreSQL \<Rightarrow> PyDateTime s)"

record session_item =
  item_session_id :: json
  records :: nat
  created :: pyval

text \<open>
  \<open>SELECT session_id, COUNT(*) as records, MIN(created_at) as created
    FROM session_records GROUP BY session_id ORDER BY created DESC LIMIT ? OFFSET ?\<close>
\<close>

definition session_groups :: "db_row list \<Rightarrow> (json \<times> nat \<times> string) list" where
  "session_groups rs =
     map (\<lambda>s. (s, length (filter (\<lambda>r. sid r = s) rs),
                min_list (map created_at (filter (\<lambda>r. sid r = s) rs))))
         (remdups (map sid rs))"

definition select_session_summaries ::
  "backend \<Rightarrow> int \<Rightarrow> int \<Rightarrow> world \<Rightarrow> py_error + session_item list" where
  "select_session_summaries b limit offset w =
     sbind (sql_limit_offset b limit offset
              (rev (sort_key (\<lambda>(s, n, c). c) (session_groups (rows w)))))
       (\<lambda>page. Inr (map (\<lambda>(s, n, c).
                  \<lparr>item_session_id = s, records = n, created = deliver_timestamp b c\<rparr>) page))"



text \<open>
  \<open>SELECT COUNT(*) FROM session_records WHERE created_at >= (now minus one day)\<close>,
  the same rows under either dialect.
\<close>

definition count_recent :: "world \<Rightarrow> py_error + nat" where
  "count_recent w = Inr (length (filter (\<lambda>r. day_ago w \<le> created_at r) (rows w)))"

text \<open>
  \<open>SELECT user_emotion, COUNT(*) as count FROM session_records
    WHERE user_emotion IS NOT NULL AND user_emotion != ''
    GROUP BY user_emotion ORDER BY count DESC LIMIT 5\<close>
\<close>

definition select_top_emotions :: "world \<Rightarrow> py_error + (json \<times> nat) list" where
  "select_top_emotions w =
     (let es = filter (\<lambda>e. e \<noteq> JNull \<and> e \<noteq> JStr [])
                 (map (\<lambda>r. user_emotion (cols r)) (rows w))
      in Inr (take 5 (rev (sort_key snd (map (\<lambda>e. (e, count_list es e)) (remdups es))))))"

section \<open>The endpoints\<close>

subsection \<open>\<open>POST /upload\<close>\<close>

text \<open>The outcome of \<open>json.loads(content.decode('utf-8'))\<close> on the uploaded bytes.\<close>

datatype upload_content = Undecodable | Malformed | Parsed json

record upload_response =
  records_added :: nat
  total_sessions :: nat

definition endswith :: "string \<Rightarrow> string \<Rightarrow> bool" where
  "endswith s suffix =
     (length suffix \<le> length s \<and> drop (length s - length suffix) s = suffix)"

text \<open>
  The loop \<open>for record in data\<close>: the parameter tuple is evaluated, then the INSERT is
  executed on the open transaction, then \<open>records_added += 1\<close>.
\<close>

fun insert_records :: "conn \<Rightarrow> nat \<Rightarrow> json list \<Rightarrow> (conn \<times> nat) io" where
  "insert_records c n [] = returnM (c, n)"
| "insert_records c n (record # data) =
     bindM (case flatten record of
              Inl e \<Rightarrow> raiseM e
            | Inr row \<Rightarrow> execute_insert c row)
       (\<lambda>c'. insert_records c' (n + 1) data)"

text \<open>The body of the \<open>try\<close> block.\<close>

definition upload_body :: "upload_content \<Rightarrow> upload_response io" where
  "upload_body content =
     (case content of
        Undecodable \<Rightarrow> raiseM UnicodeDecodeError
      | Malformed \<Rightarrow> raiseM JSONDecodeError
      | Parsed (JArr data) \<Rightarrow>
          bindM get_db_connection (\<lambda>c.
          bindM (insert_records c 0 data) (\<lambda>(c', n).
          bindM (commit c') (\<lambda>c''.
          bindM (close c'') (\<lambda>_.
          bindM get_db_connection (\<lambda>c2.
          bindM (query count_distinct_sessions) (\<lambda>total.
          bindM (close c2) (\<lambda>_.
          returnM \<lparr>records_added = n, total_sessions = total\<rparr>)))))))
      | Parsed _ \<Rightarrow>
          raiseM (HTTPException 400 ''JSON must be an array of session records'' None))"

text \<open>
  The filename check comes before the \<open>try\<close>. Of the two handlers the first takes
  \<open>JSONDecodeError\<close>, the second every other exception, the \<open>HTTPException\<close> raised
  inside the block included.
\<close>

definition upload_session_data :: "string \<Rightarrow> upload_content \<Rightarrow> upload_response io" where
  "upload_session_data filename content w =
     (if \<not> endswith filename ''.json''
      then (Inl (HTTPException 400 ''Only JSON files are allowed'' None), w)
      else case upload_body content w of
             (Inl JSONDecodeError, w') \<Rightarrow>
               (Inl (HTTPException 400 ''Invalid JSON format'' None), w')
           | (Inl e, w') \<Rightarrow>
               (Inl (HTTPException 500 ''Error processing file: '' (Some e)), w')
           | (Inr r, w') \<Rightarrow> (Inr r, w'))"

subsection \<open>\<open>GET /api/sessions\<close>\<close>

record sessions_response =
  items :: "session_item list"
  total :: nat
  has_more :: bool
  message :: "string option"
  error :: "(string \<times> py_error) option"

text \<open>\<open>if session_dict.get('created')\<close>\<close>

definition truthy :: "pyval \<Rightarrow> bool" where
  "truthy v = (case v of PyNone \<Rightarrow> False | PyStr s \<Rightarrow> s \<noteq> [] | PyDateTime s \<Rightarrow> True)"

text \<open>\<open>.replace(' ', 'T')\<close>\<close>

definition replace_space_T :: "string \<Rightarrow> string" where
  "replace_space_T s = map (\<lambda>c. if c = CHR '' '' then CHR ''T'' else c) s"

text \<open>
  The SQLite branch's \<open># Format timestamp to ISO format\<close>: a string is rewritten, any
  other value is rewritten from its \<open>str()\<close>.
\<close>

definition format_created :: "session_item \<Rightarrow> session_item" where
  "format_created item =
     (if truthy (created item)
      then (case created item of
              PyStr s \<Rightarrow> item\<lparr>created := PyStr (replace_space_T s @ ''Z'')\<rparr>
            | PyDateTime s \<Rightarrow> item\<lparr>created := PyStr (replace_space_T s @ ''Z'')\<rparr>
            | PyNone \<Rightarrow> item)
      else item)"

definition get_sessions_body :: "int \<Rightarrow> int \<Rightarrow> sessions_response io" where
  "get_sessions_body limit offset =
     bindM get_db_connection (\<lambda>c.
     bindM (if is_sqlite c
            then bindM (query (select_session_summaries SQLite limit offset)) (\<lambda>rs.
                 bindM (query count_distinct_sessions) (\<lambda>n.
                 returnM (map format_created rs, n)))
            else bindM (query (select_session_summaries PostgreSQL limit offset)) (\<lambda>rs.
                 bindM (query count_distinct_sessions) (\<lambda>n.
                 returnM (rs, n))))
       (\<lambda>(sessions, total_sessions).
     bindM (close c) (\<lambda>_.
       if total_sessions = 0
       then returnM \<lparr>items = [], total = 0, has_more = False,
                      message = Some ''No sessions found in database'', error = None\<rparr>
       else returnM \<lparr>items = sessions, total = total_sessions,
                      has_more = (int (length sessions) = limit),
                      message = None, error = None\<rparr>)))"

definition get_sessions :: "int \<Rightarrow> int \<Rightarrow> world \<Rightarrow> sessions_response \<times> world" where
  "get_sessions limit offset w =
     (case get_sessions_body limit offset w of
        (Inl e, w') \<Rightarrow>
          (\<lparr>items = [], total = 0, has_more = False, message = None,
            error = Some (''Database connection issue: '', e)\<rparr>, w')
      | (Inr r, w') \<Rightarrow> (r, w'))"

subsection \<open>\<open>GET /api/sessions/{session_id}\<close> and \<open>.../download\<close>\<close>



subsection \<open>\<open>GET /api/health\<close>\<close>




subsection \<open>\<open>GET /api/stats\<close>\<close>

record stats_response =
  total_records :: nat
  unique_sessions :: nat
  recent_records_24h :: nat
  top_emotions :: "(json \<times> nat) list"

definition get_stats :: "stats_response io" where
  "get_stats =
     bindM get_db_connection (\<lambda>c.
     bindM (query count_all) (\<lambda>total.
     bindM (query count_distinct_sessions) (\<lambda>uniq.
     bindM (if is_sqlite c then query count_recent else query count_recent) (\<lambda>recent.
     bindM (query select_top_emotions) (\<lambda>top.
     bindM (close c) (\<lambda>_.
     returnM \<lparr>total_records = total, unique_sessions = uniq,
               recent_records_24h = recent, top_emotions = top\<rparr>))))))"

subsection \<open>\<open>DELETE /api/clear\<close>\<close>


section \<open>Notions used in the statements\<close>

text \<open>
  An element of a batch whose processing fails whatever the backend does: either the
  parameter tuple cannot be built, or the row has no \<open>session_id\<close>.
\<close>

definition record_fails :: "json \<Rightarrow> bool" where
  "record_fails r = (case flatten r of Inl e \<Rightarrow> True | Inr row \<Rightarrow> session_id row = JNull)"

definition only_attribute_error :: "py_error + 'a \<Rightarrow> bool" where
  "only_attribute_error x = (case x of Inl e \<Rightarrow> e = AttributeError | Inr a \<Rightarrow> True)"


text \<open>The rows a batch of well-formed records adds, with keys from \<open>k\<close> on.\<close>

fun new_rows :: "nat \<Rightarrow> string \<Rightarrow> json list \<Rightarrow> db_row list" where
  "new_rows k t [] = []"
| "new_rows k t (r # rs) =
     \<lparr>row_id = k, cols = flat_of r, created_at = t\<rparr> # new_rows (Suc k) t rs"

section \<open>Example inputs\<close>

definition empty_store :: world where
  "empty_store =
     \<lparr>deployment = UseSqlite, rows = [], next_id = 1,
       now = ''2024-01-02 10:00:00'', day_ago = ''2024-01-01 10:00:00'',
       conns_opened = 0, conns_closed = 0, faults = []\<rparr>"

definition partial_record :: json where
  "partial_record =
     JObj [(''session_id'', JStr ''s1''),
           (''hmd_data'', JObj [(''position'', JObj [(''x'', JNum 1.5)])]),
           (''user_emotion'', JStr ''happy'')]"

definition null_hmd_record :: json where
  "null_hmd_record = JObj [(''session_id'', JStr ''s1''), (''hmd_data'', JNull)]"


definition one_session_store :: world where
  "one_session_store =
     \<lparr>deployment = UseSqlite,
       rows = [\<lparr>row_id = 1, cols = flat_of partial_record,
                created_at = ''2024-01-01 12:00:00''\<rparr>],
       next_id = 2,
       now = ''2024-01-02 10:00:00'', day_ago = ''2024-01-01 10:00:00'',
       conns_opened = 0, conns_closed = 0, faults = []\<rparr>"

definition emotion_store :: world where
  "emotion_store =
     empty_store\<lparr>rows :=
       map (\<lambda>(i, e). \<lparr>row_id = i,
                        cols = flat_of (JObj [(''session_id'', JStr ''s1''), (''user_emotion'', e)]),
                        created_at = ''2024-01-01 12:00:00''\<rparr>)
         [(1, JStr ''happy''), (2, JStr []), (3, JStr ''excited''), (4, JNull),
          (5, JStr ''excited'')]\<rparr>"

section \<open>Basic facts\<close>

lemmas eval_defs = get_sessions_def get_sessions_body_def get_stats_def bindM_def returnM_def raiseM_def
  get_db_connection_def open_conn_def backend_call_def query_def close_def is_sqlite_def
  select_session_summaries_def session_groups_def sql_limit_offset_def int64_ok_def
  count_distinct_sessions_def count_all_def count_recent_def select_top_emotions_def
  deliver_timestamp_def format_created_def truthy_def replace_space_T_def sid_def
  flat_of_def leaf_or_null_def partial_record_def

lemma sbind_Inr [simp]: "sbind (Inr a) f = f a"
  by (simp add: sbind_def)

lemma sbind_Inl [simp]: "sbind (Inl e) f = Inl e"
  by (simp add: sbind_def)

lemma bindM_returnM [simp]: "bindM (returnM a) f w = f a w"
  by (simp add: bindM_def returnM_def)

lemma bindM_raiseM [simp]: "bindM (raiseM e) f w = (Inl e, w)"
  by (simp add: bindM_def raiseM_def)

lemma bindM_Inl: "m w = (Inl e, w1) \<Longrightarrow> bindM m f w = (Inl e, w1)"
  by (simp add: bindM_def)

lemma bindM_Inr: "m w = (Inr a, w1) \<Longrightarrow> bindM m f w = f a w1"
  by (simp add: bindM_def)

lemma bindM_InrE:
  assumes "bindM m f w = (Inr r, w')"
  obtains a w1 where "m w = (Inr a, w1)" and "f a w1 = (Inr r, w')"
  using assms by (auto simp: bindM_def split: prod.splits sum.splits)

lemma bindM_cases:
  assumes "bindM m f w = (r, w')"
  obtains (fail) e where "m w = (Inl e, w')" and "r = Inl e"
        | (ok) a w1 where "m w = (Inr a, w1)" and "f a w1 = (r, w')"
  using assms by (auto simp: bindM_def split: prod.splits sum.splits)


lemma backend_call_frame:
  assumes "backend_call e w = (r, w')"
  shows "rows w' = rows w \<and> conns_opened w' = conns_opened w \<and> conns_closed w' = conns_closed w"
  using assms by (auto simp: backend_call_def split: list.splits if_splits)



lemma query_Inr:
  assumes "query q w = (Inr a, w')"
  shows "q w' = Inr a"
  using assms 
  by (auto simp: query_def bindM_def split: prod.splits sum.splits)

lemma open_conn_frame:
  assumes "open_conn b w = (r, w')"
  shows "rows w' = rows w \<and> conns_closed w' = conns_closed w"
  using assms backend_call_frame[of OperationalError w]
  by (auto simp: open_conn_def bindM_def split: prod.splits sum.splits)


lemma get_db_connection_frame:
  assumes "get_db_connection w = (r, w')"
  shows "rows w' = rows w \<and> conns_closed w' = conns_closed w"
proof (cases "deployment w")
  case (Vercel u)
  show ?thesis
  proof (cases u)
    case None
    with Vercel assms show ?thesis by (simp add: get_db_connection_def)
  next
    case (Some url)
    with Vercel assms show ?thesis
      using open_conn_frame[of PostgreSQL w] backend_call_frame[of DatabaseError]
      by (fastforce simp: get_db_connection_def bindM_def returnM_def split: prod.splits sum.splits)
  qed
next
  case UseSqlite
  with assms show ?thesis using open_conn_frame[of SQLite w] by (simp add: get_db_connection_def)
next
  case LocalDefault
  with assms show ?thesis
    using open_conn_frame[of PostgreSQL w] open_conn_frame[of SQLite]
    by (fastforce simp: get_db_connection_def split: prod.splits sum.splits)
qed


lemma close_eq: "close c w = (Inr (), w\<lparr>conns_closed := Suc (conns_closed w)\<rparr>)"
  by (simp add: close_def)


lemma execute_insert_frame:
  assumes "execute_insert c row w = (r, w')"
  shows "rows w' = rows w \<and> conns_opened w' = conns_opened w \<and> conns_closed w' = conns_closed w"
  using assms backend_call_frame[of DatabaseError w]
  by (auto simp: execute_insert_def bindM_def split: prod.splits sum.splits if_splits)


lemma insert_records_frame:
  "insert_records c n data w = (r, w') \<Longrightarrow>
     rows w' = rows w \<and> conns_opened w' = conns_opened w \<and> conns_closed w' = conns_closed w"
proof (induction data arbitrary: c n w)
  case Nil
  then show ?case by (simp add: returnM_def)
next
  case (Cons x data)
  let ?step = "case flatten x of Inl e \<Rightarrow> raiseM e | Inr row \<Rightarrow> execute_insert c row"
  have step: "rows w1 = rows w \<and> conns_opened w1 = conns_opened w \<and> conns_closed w1 = conns_closed w"
    if "?step w = (r1, w1)" for r1 w1
    using that execute_insert_frame by (auto simp: raiseM_def split: sum.splits)
  from Cons.prems have "bindM ?step (\<lambda>c'. insert_records c' (n + 1) data) w = (r, w')"
    by simp
  then show ?case
  proof (cases rule: bindM_cases)
    case (fail e)
    then show ?thesis using step by blast
  next
    case (ok c1 w1)
    with Cons.IH[OF ok(2)] step[OF ok(1)] show ?thesis by simp
  qed
qed


section \<open>The transcoder\<close>

lemma get1_obj:
  "get1 (JObj kvs) k = Inr (case get_path (JObj kvs) [k] of Some v \<Rightarrow> v | None \<Rightarrow> JNull)"
  by (simp add: get1_def py_get_def split: option.splits)

lemma get2_obj:
  assumes "sub_ok (JObj kvs) [a]"
  shows "get2 (JObj kvs) a k =
           Inr (case get_path (JObj kvs) [a, k] of Some v \<Rightarrow> v | None \<Rightarrow> JNull)"
  using assms
  by (auto simp: get2_def py_get_def sub_ok_def split: option.splits json.splits)

lemma get3_obj:
  assumes "sub_ok (JObj kvs) [a]" and "sub_ok (JObj kvs) [a, b]"
  shows "get3 (JObj kvs) a b k =
           Inr (case get_path (JObj kvs) [a, b, k] of Some v \<Rightarrow> v | None \<Rightarrow> JNull)"
  using assms
  by (auto simp: get3_def py_get_def sub_ok_def split: option.splits json.splits)

lemma flatten_nested:
  assumes "nested_record r"
  shows "flatten r = Inr (flat_of r)"
proof -
  from assms obtain kvs where r: "r = JObj kvs"
    by (auto simp: nested_record_def split: json.splits)
  from assms have s: "sub_ok (JObj kvs) [''conversation_data'']"
      "sub_ok (JObj kvs) [''hmd_data'']"
      "sub_ok (JObj kvs) [''hmd_data'', ''position'']"
      "sub_ok (JObj kvs) [''hmd_data'', ''gaze_vector'']"
      "sub_ok (JObj kvs) [''controller_data'']"
      "sub_ok (JObj kvs) [''controller_data'', ''r_position'']"
      "sub_ok (JObj kvs) [''controller_data'', ''l_position'']"
    unfolding nested_record_def r by simp_all
  show ?thesis
    unfolding flatten_def flat_of_def r leaf_or_null_def
    by (simp only: get1_obj get2_obj[OF s(1)] get2_obj[OF s(2)] get2_obj[OF s(5)]
        get3_obj[OF s(2) s(3)] get3_obj[OF s(2) s(4)] get3_obj[OF s(5) s(6)]
        get3_obj[OF s(5) s(7)] sbind_Inr)
qed

lemma unflatten_leaves:
  "\<forall>p\<in>set leaf_paths. get_path (unflatten (flat_of r)) p = Some (leaf_or_null r p)"
  unfolding leaf_paths_def by (simp add: unflatten_def flat_of_def)

lemma unflatten_shape:
  "keys_at (unflatten row) [] =
     Some [''session_id'', ''phase'', ''area'', ''timestamp'', ''conversation_data'',
           ''hmd_data'', ''controller_data'', ''user_emotion'', ''emotion_window_flag'']"
  "keys_at (unflatten row) [''conversation_data''] = Some [''speaker'', ''text'']"
  "keys_at (unflatten row) [''hmd_data''] =
     Some [''position'', ''gaze_vector'', ''gaze_actor'', ''movement_speed'']"
  "keys_at (unflatten row) [''hmd_data'', ''position''] = Some [''x'', ''y'', ''z'']"
  "keys_at (unflatten row) [''hmd_data'', ''gaze_vector''] = Some [''x'', ''y'', ''z'']"
  "keys_at (unflatten row) [''controller_data''] =
     Some [''r_position'', ''l_position'', ''r_interacted_actor'', ''l_interacted_actor'',
           ''r_movement_speed'', ''l_movement_speed'']"
  "keys_at (unflatten row) [''controller_data'', ''r_position''] = Some [''x'', ''y'', ''z'']"
  "keys_at (unflatten row) [''controller_data'', ''l_position''] = Some [''x'', ''y'', ''z'']"
  by (simp_all add: keys_at_def unflatten_def)

lemma nested_partial_record: "nested_record partial_record"
  by (simp add: nested_record_def sub_ok_def partial_record_def)

text \<open>
  C1. For a nested record (an object whose sub-object keys are absent or bound to
  objects) with any subset of the 26 leaves present, column extraction succeeds, and in
  the reconstruction of the extracted row every leaf path holds the value the record had
  there, or null when the record had none; the eight objects of the nested shape are
  always there with their fixed keys. Column values are taken as stored unchanged.
\<close>

theorem roundtrip_unflatten_flatten:
  assumes "nested_record r"
  shows "\<exists>row. flatten r = Inr row
           \<and> (\<forall>p\<in>set leaf_paths. get_path (unflatten row) p = Some (leaf_or_null r p))
           \<and> keys_at (unflatten row) [] =
               Some [''session_id'', ''phase'', ''area'', ''timestamp'', ''conversation_data'',
                     ''hmd_data'', ''controller_data'', ''user_emotion'', ''emotion_window_flag'']
           \<and> keys_at (unflatten row) [''conversation_data''] = Some [''speaker'', ''text'']
           \<and> keys_at (unflatten row) [''hmd_data''] =
               Some [''position'', ''gaze_vector'', ''gaze_actor'', ''movement_speed'']
           \<and> keys_at (unflatten row) [''hmd_data'', ''position''] = Some [''x'', ''y'', ''z'']
           \<and> keys_at (unflatten row) [''hmd_data'', ''gaze_vector''] = Some [''x'', ''y'', ''z'']
           \<and> keys_at (unflatten row) [''controller_data''] =
               Some [''r_position'', ''l_position'', ''r_interacted_actor'',
                     ''l_interacted_actor'', ''r_movement_speed'', ''l_movement_speed'']
           \<and> keys_at (unflatten row) [''controller_data'', ''r_position''] =
               Some [''x'', ''y'', ''z'']
           \<and> keys_at (unflatten row) [''controller_data'', ''l_position''] =
               Some [''x'', ''y'', ''z'']"
  using flatten_nested[OF assms] unflatten_leaves[of r] unflatten_shape[of "flat_of r"]
  by blast

theorem roundtrip_unflatten_flatten_witness:
  "nested_record partial_record
   \<and> (\<exists>row. flatten partial_record = Inr row
         \<and> get_path (unflatten row) [''hmd_data'', ''position'', ''x''] = Some (JNum 1.5)
         \<and> get_path (unflatten row) [''hmd_data'', ''position'', ''y''] = Some JNull
         \<and> get_path (unflatten row) [''conversation_data'', ''speaker''] = Some JNull
         \<and> get_path (unflatten row) [''user_emotion''] = Some (JStr ''happy''))"
proof -
  from roundtrip_unflatten_flatten[OF nested_partial_record]
  obtain row where row: "flatten partial_record = Inr row"
    and leaves: "\<forall>p\<in>set leaf_paths.
                   get_path (unflatten row) p = Some (leaf_or_null partial_record p)"
    by blast
  have "get_path (unflatten row) [''hmd_data'', ''position'', ''x''] = Some (JNum 1.5)"
    using leaves by (simp add: leaf_paths_def leaf_or_null_def partial_record_def)
  moreover have "get_path (unflatten row) [''hmd_data'', ''position'', ''y''] = Some JNull"
    using leaves by (simp add: leaf_paths_def leaf_or_null_def partial_record_def)
  moreover have "get_path (unflatten row) [''conversation_data'', ''speaker''] = Some JNull"
    using leaves by (simp add: leaf_paths_def leaf_or_null_def partial_record_def)
  moreover have "get_path (unflatten row) [''user_emotion''] = Some (JStr ''happy'')"
    using leaves by (simp add: leaf_paths_def leaf_or_null_def partial_record_def)
  ultimately show ?thesis using row nested_partial_record by blast
qed

text \<open>
  C2. The record \<open>{"session_id": "s1", "hmd_data": null}\<close> has the key \<open>hmd_data\<close>
  bound to a value that is not an object. The default \<open>{}\<close> of \<open>record.get\<close> is not
  used for a key that is present, so the extraction raises \<open>AttributeError\<close> and the
  upload of the one-record batch ends in status 500 with nothing stored.
\<close>

theorem flatten_null_intermediate_raises:
  "flatten null_hmd_record = Inl AttributeError
   \<and> fst (upload_session_data ''data.json'' (Parsed (JArr [null_hmd_record])) empty_store)
       = Inl (HTTPException 500 ''Error processing file: '' (Some AttributeError))
   \<and> rows (snd (upload_session_data ''data.json'' (Parsed (JArr [null_hmd_record]))
                  empty_store)) = []"
  by (simp add: null_hmd_record_def flatten_def get1_def get2_def get3_def py_get_def
      upload_session_data_def upload_body_def endswith_def empty_store_def bindM_def
      get_db_connection_def open_conn_def backend_call_def raiseM_def)

section \<open>Upload\<close>

text \<open>
  C10. A filename that does not end in \<open>.json\<close> is refused with status 400 whatever
  the content is; the world (table, connections, backend calls) is exactly as before.
\<close>

theorem upload_rejects_non_json_filename:
  assumes "\<not> endswith filename ''.json''"
  shows "upload_session_data filename content w
           = (Inl (HTTPException 400 ''Only JSON files are allowed'' None), w)"
  using assms by (simp add: upload_session_data_def)

theorem upload_rejects_non_json_filename_witness:
  "\<not> endswith ''data.txt'' ''.json''
   \<and> upload_session_data ''data.txt'' (Parsed (JArr [partial_record])) empty_store
       = (Inl (HTTPException 400 ''Only JSON files are allowed'' None), empty_store)"
proof -
  have h: "\<not> endswith ''data.txt'' ''.json''"
    by (simp add: endswith_def)
  show ?thesis
    using h upload_rejects_non_json_filename[OF h, of "Parsed (JArr [partial_record])" empty_store]
    by simp
qed

section \<open>Statistics and listing\<close>

lemma select_top_emotions_props:
  assumes "select_top_emotions w = Inr tops"
  shows "(\<forall>(e, c)\<in>set tops. e \<noteq> JNull \<and> e \<noteq> JStr [])
         \<and> sorted_wrt (\<ge>) (map snd tops) \<and> length tops \<le> 5"
proof -
  define es where "es = filter (\<lambda>e. e \<noteq> JNull \<and> e \<noteq> JStr [])
                 (map (\<lambda>r. user_emotion (cols r)) (rows w))"
  define groups where "groups = map (\<lambda>e. (e, count_list es e)) (remdups es)"
  have tops: "tops = take 5 (rev (sort_key snd groups))"
    using assms by (simp add: select_top_emotions_def es_def groups_def Let_def)
  have "set tops \<subseteq> set groups"
    unfolding tops using set_take_subset[of 5 "rev (sort_key snd groups)"] by simp
  moreover have "\<forall>(e, c)\<in>set groups. e \<noteq> JNull \<and> e \<noteq> JStr []"
    by (auto simp: groups_def es_def)
  ultimately have a: "\<forall>(e, c)\<in>set tops. e \<noteq> JNull \<and> e \<noteq> JStr []"
    by blast
  have "sorted (map snd (sort_key snd groups))"
    by (rule sorted_sort_key)
  then have "sorted_wrt (\<ge>) (rev (map snd (sort_key snd groups)))"
    by (simp add: sorted_wrt_rev)
  then have "sorted_wrt (\<ge>) (map snd (rev (sort_key snd groups)))"
    by (simp add: rev_map)
  then have b: "sorted_wrt (\<ge>) (map snd tops)"
    unfolding tops take_map[symmetric] by (rule sorted_wrt_take)
  have c: "length tops \<le> 5" unfolding tops by simp
  from a b c show ?thesis by blast
qed

lemma bindM_close: "bindM (close c) f w = f () (w\<lparr>conns_closed := Suc (conns_closed w)\<rparr>)"
  by (simp add: bindM_def close_def)

lemma get_stats_Inr:
  assumes "get_stats w = (Inr r, w')"
  shows "\<exists>w1. select_top_emotions w1 = Inr (top_emotions r)"
  using assms unfolding get_stats_def
  apply (elim bindM_InrE)
  apply (clarsimp simp: returnM_def)
  apply (blast dest: query_Inr)
  done

lemma get_sessions_has_more:
  assumes "get_sessions limit offset w = (resp, w')"
  shows "has_more resp \<longleftrightarrow> (total resp \<noteq> 0 \<and> int (length (items resp)) = limit)"
proof (cases "get_sessions_body limit offset w")
  case (Pair r w1)
  show ?thesis
  proof (cases r)
    case (Inl e)
    with Pair assms show ?thesis by (auto simp: get_sessions_def)
  next
    case (Inr resp1)
    with Pair assms have eq: "resp1 = resp" by (auto simp: get_sessions_def)
    from Pair Inr have "get_sessions_body limit offset w = (Inr resp1, w1)" by simp
    then show ?thesis unfolding get_sessions_body_def eq
      apply (elim bindM_InrE)
      apply (clarsimp simp: returnM_def bindM_close split: if_splits)
      done
  qed
qed

section \<open>Connections\<close>













section \<open>Listing, statistics and connections: the statements\<close>

text \<open>
  C3. One session whose earliest \<open>created_at\<close> is \<open>2024-01-01 12:00:00\<close>, listed with
  limit 100 and offset 0. The SQLite branch rewrites \<open>created\<close> to the \<open>T\<close>-separated,
  \<open>Z\<close>-suffixed text; the PostgreSQL branch returns \<open>dict(row)\<close> as delivered, so
  \<open>created\<close> is the driver's timestamp value and no rewriting has taken place.
\<close>

theorem created_not_rewritten_under_postgresql:
  "map created (items (fst (get_sessions 100 0 one_session_store)))
     = [PyStr ''2024-01-01T12:00:00Z'']
   \<and> map created (items (fst (get_sessions 100 0
           (one_session_store\<lparr>deployment := Vercel (Some ''postgres://db'')\<rparr>))))
     = [PyDateTime ''2024-01-01 12:00:00'']"
  by (simp add: one_session_store_def eval_defs)

text \<open>
  C4 as stated fails. On the empty store with limit 0 the page has 0 items, which
  equals the limit, and \<open>has_more\<close> is false: the branch \<open>if total_sessions == 0\<close>
  answers first.
\<close>

theorem has_more_false_on_empty_store_limit_zero:
  "\<not> (has_more (fst (get_sessions 0 0 empty_store))
        \<longleftrightarrow> int (length (items (fst (get_sessions 0 0 empty_store)))) = 0)"
  by (simp add: empty_store_def eval_defs)

text \<open>
  C4 (amended). For every store, limit and offset, \<open>has_more\<close> is true exactly when the
  reported total of sessions is not zero and the number of items returned equals the
  limit.
\<close>

theorem has_more_iff_full_page_of_nonempty_store:
  "has_more (fst (get_sessions limit offset w))
     \<longleftrightarrow> (total (fst (get_sessions limit offset w)) \<noteq> 0
          \<and> int (length (items (fst (get_sessions limit offset w)))) = limit)"
  using get_sessions_has_more[of limit offset w] by (cases "get_sessions limit offset w") simp

theorem has_more_iff_full_page_of_nonempty_store_witness:
  "has_more (fst (get_sessions 1 0 one_session_store))
   \<and> total (fst (get_sessions 1 0 one_session_store)) = 1
   \<and> length (items (fst (get_sessions 1 0 one_session_store))) = 1"
proof -
  have "total (fst (get_sessions 1 0 one_session_store)) = 1"
    by (simp add: one_session_store_def eval_defs)
  moreover have "length (items (fst (get_sessions 1 0 one_session_store))) = 1"
    by (simp add: one_session_store_def eval_defs)
  ultimately show ?thesis
    using has_more_iff_full_page_of_nonempty_store[of 1 0 one_session_store] by simp
qed

text \<open>
  C5 as stated fails for stats. The stats operation has no handler: when the connection
  cannot be opened the exception reaches the caller.
\<close>

theorem stats_propagates_backend_failure:
  "fst (get_stats (empty_store\<lparr>faults := [True]\<rparr>)) = Inl OperationalError"
  by (simp add: empty_store_def eval_defs)


lemma backend_call_True: "faults w = True # fs \<Longrightarrow> backend_call e w = (Inl e, w\<lparr>faults := fs\<rparr>)"
  by (simp add: backend_call_def)

lemma backend_call_False: "faults w = False # fs \<Longrightarrow> backend_call e w = (Inr (), w\<lparr>faults := fs\<rparr>)"
  by (simp add: backend_call_def)

lemma query_fault: "faults w = True # fs \<Longrightarrow> query q w = (Inl DatabaseError, w\<lparr>faults := fs\<rparr>)"
  by (simp add: query_def bindM_def backend_call_True)

lemma query_pass: "faults w = False # fs \<Longrightarrow> query q w = (case q (w\<lparr>faults := fs\<rparr>) of Inl e \<Rightarrow> Inl e | Inr a \<Rightarrow> Inr a, w\<lparr>faults := fs\<rparr>)"
  by (simp add: query_def bindM_def backend_call_False split: sum.splits)

lemma get_stats_statement_fails:
  assumes "get_db_connection w = (Inr c, w1)"
    and "faults w1 = replicate k False @ True # fs" and "k < 4"
  shows "\<exists>w'. get_stats w = (Inl DatabaseError, w')"
proof -
  from \<open>k < 4\<close> consider "k = 0" | "k = 1" | "k = 2" | "k = 3" by linarith
  then show ?thesis
  proof cases
    case 1
    with assms show ?thesis
      by (simp add: get_stats_def bindM_def query_fault)
  next
    case 2
    with assms show ?thesis
      by (simp add: get_stats_def bindM_def query_fault query_pass count_all_def)
  next
    case 3
    with assms show ?thesis
      by (simp add: get_stats_def bindM_def query_fault query_pass count_all_def count_distinct_sessions_def numeral_2_eq_2)
  next
    case 4
    with assms show ?thesis
      by (simp add: get_stats_def bindM_def query_fault query_pass count_all_def count_distinct_sessions_def count_recent_def numeral_3_eq_3)
  qed
qed


lemma get_sessions_connect_fails:
  assumes "get_db_connection w = (Inl e, w1)"
  shows "get_sessions limit offset w =
           (\<lparr>items = [], total = 0, has_more = False, message = None,
             error = Some (''Database connection issue: '', e)\<rparr>, w1)"
  using assms by (simp add: get_sessions_def get_sessions_body_def bindM_def)

lemma select_session_summaries_Inl:
  "select_session_summaries b limit offset w = Inl e \<Longrightarrow> e = DatabaseError"
  by (auto simp: select_session_summaries_def sql_limit_offset_def sbind_def
      split: sum.splits if_splits backend.splits)

lemma two_queries_fail:
  assumes f: "faults w = replicate k False @ True # fs" and k: "k < 2"
    and q1: "\<And>v e. q1 v = Inl e \<Longrightarrow> e = DatabaseError"
  shows "\<exists>w'. bindM (query q1) (\<lambda>rs. bindM (query q2) (g rs)) w = (Inl DatabaseError, w')"
proof -
  from k consider "k = 0" | "k = 1" by linarith
  then show ?thesis
  proof cases
    case 1
    with f have "query q1 w = (Inl DatabaseError, w\<lparr>faults := fs\<rparr>)"
      by (simp add: query_fault)
    then show ?thesis by (simp add: bindM_def)
  next
    case 2
    with f have f1: "faults w = False # True # fs" by simp
    let ?w1 = "w\<lparr>faults := True # fs\<rparr>"
    show ?thesis
    proof (cases "q1 ?w1")
      case (Inl e)
      with q1 have "e = DatabaseError" by blast
      with Inl f1 have "query q1 w = (Inl DatabaseError, ?w1)"
        by (simp add: query_pass)
      then show ?thesis by (simp add: bindM_def)
    next
      case (Inr rs)
      with f1 have a: "query q1 w = (Inr rs, ?w1)"
        by (simp add: query_pass)
      have b: "query q2 ?w1 = (Inl DatabaseError, ?w1\<lparr>faults := fs\<rparr>)"
        by (rule query_fault) simp
      from a b show ?thesis by (simp add: bindM_def)
    qed
  qed
qed

lemma get_sessions_statement_fails:
  assumes c: "get_db_connection w = (Inr c, w1)"
    and f: "faults w1 = replicate k False @ True # fs" and k: "k < 2"
  shows "fst (get_sessions limit offset w) =
           \<lparr>items = [], total = 0, has_more = False, message = None,
             error = Some (''Database connection issue: '', DatabaseError)\<rparr>"
proof -
  let ?block = "if is_sqlite c
            then bindM (query (select_session_summaries SQLite limit offset)) (\<lambda>rs.
                 bindM (query count_distinct_sessions) (\<lambda>n.
                 returnM (map format_created rs, n)))
            else bindM (query (select_session_summaries PostgreSQL limit offset)) (\<lambda>rs.
                 bindM (query count_distinct_sessions) (\<lambda>n.
                 returnM (rs, n)))"
  have "\<exists>w'. ?block w1 = (Inl DatabaseError, w')"
    using two_queries_fail[OF f k, of "select_session_summaries SQLite limit offset"]
      two_queries_fail[OF f k, of "select_session_summaries PostgreSQL limit offset"]
      select_session_summaries_Inl
    by (cases "is_sqlite c") auto
  then obtain w' where "?block w1 = (Inl DatabaseError, w')" by blast
  then have "get_sessions_body limit offset w = (Inl DatabaseError, w')"
    unfolding get_sessions_body_def
    using c by (simp add: bindM_def)
  then show ?thesis by (simp add: get_sessions_def)
qed

text \<open>
  C5 (amended). Every exception raised inside the listing operation (a failed
  connection, a failed statement, anything else raised in the \<open>try\<close> block) is turned
  into the empty response annotated with the error. The stats operation passes a failed
  connection or a failed statement on to the caller as a failure.
\<close>

theorem listing_degrades_stats_propagates:
  "(get_sessions_body limit offset w = (Inl e, w1) \<longrightarrow>
      get_sessions limit offset w =
        (\<lparr>items = [], total = 0, has_more = False, message = None,
          error = Some (''Database connection issue: '', e)\<rparr>, w1))
   \<and> (get_db_connection w = (Inl e, w1) \<longrightarrow>
      get_sessions limit offset w =
        (\<lparr>items = [], total = 0, has_more = False, message = None,
          error = Some (''Database connection issue: '', e)\<rparr>, w1)
      \<and> get_stats w = (Inl e, w1))
   \<and> (get_db_connection w = (Inr c, w1) \<and> faults w1 = replicate k False @ True # fs \<and> k < 2 \<longrightarrow>
      fst (get_sessions limit offset w) =
        \<lparr>items = [], total = 0, has_more = False, message = None,
          error = Some (''Database connection issue: '', DatabaseError)\<rparr>)
   \<and> (get_db_connection w = (Inr c, w1) \<and> faults w1 = replicate k False @ True # fs \<and> k < 4 \<longrightarrow>
      (\<exists>w'. get_stats w = (Inl DatabaseError, w')))"
proof (intro conjI impI)
  assume "get_sessions_body limit offset w = (Inl e, w1)"
  then show "get_sessions limit offset w =
        (\<lparr>items = [], total = 0, has_more = False, message = None,
          error = Some (''Database connection issue: '', e)\<rparr>, w1)"
    by (simp add: get_sessions_def)
next
  assume "get_db_connection w = (Inl e, w1)"
  then show "get_sessions limit offset w =
        (\<lparr>items = [], total = 0, has_more = False, message = None,
          error = Some (''Database connection issue: '', e)\<rparr>, w1)"
    by (rule get_sessions_connect_fails)
next
  assume "get_db_connection w = (Inl e, w1)"
  then show "get_stats w = (Inl e, w1)"
    by (simp add: get_stats_def bindM_def)
next
  assume "get_db_connection w = (Inr c, w1) \<and> faults w1 = replicate k False @ True # fs \<and> k < 2"
  then show "fst (get_sessions limit offset w) =
        \<lparr>items = [], total = 0, has_more = False, message = None,
          error = Some (''Database connection issue: '', DatabaseError)\<rparr>"
    using get_sessions_statement_fails by blast
next
  assume "get_db_connection w = (Inr c, w1) \<and> faults w1 = replicate k False @ True # fs \<and> k < 4"
  then show "\<exists>w'. get_stats w = (Inl DatabaseError, w')"
    using get_stats_statement_fails by blast
qed

theorem listing_degrades_stats_propagates_witness:
  "get_db_connection (empty_store\<lparr>faults := [True]\<rparr>) = (Inl OperationalError, empty_store)
   \<and> get_sessions 100 0 (empty_store\<lparr>faults := [True]\<rparr>) =
        (\<lparr>items = [], total = 0, has_more = False, message = None,
          error = Some (''Database connection issue: '', OperationalError)\<rparr>, empty_store)
   \<and> get_stats (empty_store\<lparr>faults := [True]\<rparr>) = (Inl OperationalError, empty_store)"
proof -
  have h: "get_db_connection (empty_store\<lparr>faults := [True]\<rparr>) = (Inl OperationalError, empty_store)"
    by (simp add: empty_store_def get_db_connection_def open_conn_def bindM_def backend_call_def)
  show ?thesis
    using h listing_degrades_stats_propagates[of 100 0 "empty_store\<lparr>faults := [True]\<rparr>"
        OperationalError empty_store]
    by simp
qed



text \<open>
  C9. Whenever the stats operation returns, its \<open>top_emotions\<close> list has no pair whose
  emotion is null or the empty string, is ordered by count descending and has at most
  five entries.
\<close>

theorem top_emotions_filtered_sorted_top5:
  assumes "get_stats w = (Inr r, w')"
  shows "(\<forall>(e, c)\<in>set (top_emotions r). e \<noteq> JNull \<and> e \<noteq> JStr [])
         \<and> sorted_wrt (\<ge>) (map snd (top_emotions r))
         \<and> length (top_emotions r) \<le> 5"
  using get_stats_Inr[OF assms] select_top_emotions_props by blast

theorem top_emotions_filtered_sorted_top5_witness:
  "fst (get_stats emotion_store) =
     Inr \<lparr>total_records = 5, unique_sessions = 1, recent_records_24h = 5,
          top_emotions = [(JStr ''excited'', 2), (JStr ''happy'', 1)]\<rparr>
   \<and> sorted_wrt (\<ge>) (map snd [(JStr ''excited'', 2::nat), (JStr ''happy'', 1)])
   \<and> length [(JStr ''excited'', 2::nat), (JStr ''happy'', 1)] \<le> 5"
proof -
  have h: "get_stats emotion_store =
     (Inr \<lparr>total_records = 5, unique_sessions = 1, recent_records_24h = 5,
          top_emotions = [(JStr ''excited'', 2), (JStr ''happy'', 1)]\<rparr>,
      emotion_store\<lparr>conns_opened := 1, conns_closed := 1\<rparr>)"
    by (simp add: emotion_store_def empty_store_def eval_defs)
  from top_emotions_filtered_sorted_top5[OF h] h show ?thesis by simp
qed

section \<open>The batch insert\<close>

lemma only_attribute_error_sbind:
  assumes "only_attribute_error m" and "\<And>a. only_attribute_error (f a)"
  shows "only_attribute_error (sbind m f)"
  using assms by (cases m) (simp_all add: only_attribute_error_def)

lemma only_attribute_error_py_get: "only_attribute_error (py_get x k d)"
  by (simp add: only_attribute_error_def py_get_def split: json.splits)

lemma only_attribute_error_gets:
  "only_attribute_error (get1 r k)"
  "only_attribute_error (get2 r a k)"
  "only_attribute_error (get3 r a b k)"
  unfolding get1_def get2_def get3_def
  by (intro only_attribute_error_sbind only_attribute_error_py_get)+

lemma only_attribute_error_Inr: "only_attribute_error (Inr a)"
  by (simp add: only_attribute_error_def)

lemma only_attribute_error_flatten: "only_attribute_error (flatten r)"
  unfolding flatten_def
  by (intro only_attribute_error_sbind only_attribute_error_gets only_attribute_error_Inr)

lemma flatten_Inl: "flatten r = Inl e \<Longrightarrow> e = AttributeError"
  using only_attribute_error_flatten[of r] by (simp add: only_attribute_error_def)

lemma sbind_eq_Inr: "sbind m f = Inr b \<longleftrightarrow> (\<exists>a. m = Inr a \<and> f a = Inr b)"
  by (cases m) simp_all

lemma get1_Inr_obj: "get1 r k = Inr v \<Longrightarrow> (case r of JObj kvs \<Rightarrow> True | _ \<Rightarrow> False)"
  by (simp add: get1_def py_get_def split: json.splits)

lemma get2_Inr_sub: "get2 r a k = Inr v \<Longrightarrow> sub_ok r [a]"
  by (auto simp: get2_def py_get_def sub_ok_def sbind_eq_Inr split: json.splits option.splits)

lemma get3_Inr_sub: "get3 r a b k = Inr v \<Longrightarrow> sub_ok r [a, b]"
  by (auto simp: get3_def py_get_def sub_ok_def sbind_eq_Inr split: json.splits option.splits)

lemma flatten_Inr_nested:
  assumes "flatten r = Inr row"
  shows "nested_record r"
proof -
  from assms obtain c1 c5 c7 c10 c13 c15 c18 c21 where
    "get1 r ''session_id'' = Inr c1"
    "get2 r ''conversation_data'' ''speaker'' = Inr c5"
    "get3 r ''hmd_data'' ''position'' ''x'' = Inr c7"
    "get3 r ''hmd_data'' ''gaze_vector'' ''x'' = Inr c10"
    "get2 r ''hmd_data'' ''gaze_actor'' = Inr c13"
    "get3 r ''controller_data'' ''r_position'' ''x'' = Inr c15"
    "get3 r ''controller_data'' ''l_position'' ''x'' = Inr c18"
    "get2 r ''controller_data'' ''r_interacted_actor'' = Inr c21"
    unfolding flatten_def sbind_eq_Inr by blast
  then show ?thesis
    unfolding nested_record_def
    using get1_Inr_obj get2_Inr_sub get3_Inr_sub by blast
qed

lemma flatten_succeeds_iff: "(\<exists>row. flatten r = Inr row) \<longleftrightarrow> nested_record r"
  using flatten_Inr_nested flatten_nested by blast

lemma flatten_raises_iff: "flatten r = Inl AttributeError \<longleftrightarrow> \<not> nested_record r"
  using flatten_succeeds_iff[of r] flatten_Inl[of r] by (cases "flatten r") auto

lemma record_fails_iff:
  "record_fails r \<longleftrightarrow> \<not> nested_record r \<or> leaf_or_null r [''session_id''] = JNull"
proof (cases "nested_record r")
  case True
  then show ?thesis
    by (simp add: record_fails_def flatten_nested flat_of_def)
next
  case False
  then have "flatten r = Inl AttributeError" by (simp add: flatten_raises_iff)
  with False show ?thesis by (simp add: record_fails_def)
qed

lemma execute_insert_Inl:
  "execute_insert c row w = (Inl e, w') \<Longrightarrow> e = DatabaseError \<or> e = IntegrityError"
  by (auto simp: execute_insert_def bindM_def backend_call_def
      split: prod.splits sum.splits list.splits if_splits)

lemma insert_step_Inl:
  assumes "(case flatten x of Inl e \<Rightarrow> raiseM e | Inr row \<Rightarrow> execute_insert c row) w = (Inl e, w')"
  shows "e = AttributeError \<or> e = DatabaseError \<or> e = IntegrityError"
  using assms flatten_Inl[of x] execute_insert_Inl
  by (cases "flatten x") (auto simp: raiseM_def)

lemma insert_step_fails:
  assumes "record_fails x"
  shows "\<exists>e w'. (case flatten x of Inl e \<Rightarrow> raiseM e | Inr row \<Rightarrow> execute_insert c row) w = (Inl e, w')"
proof (cases "flatten x")
  case (Inl e)
  then show ?thesis by (simp add: raiseM_def)
next
  case (Inr row)
  with assms have "session_id row = JNull" by (simp add: record_fails_def)
  with Inr show ?thesis
    by (cases "backend_call DatabaseError w"; cases "fst (backend_call DatabaseError w)")
       (auto simp: execute_insert_def bindM_def)
qed

lemma insert_records_Inl:
  "insert_records c n data w = (Inl e, w') \<Longrightarrow>
     e = AttributeError \<or> e = DatabaseError \<or> e = IntegrityError"
proof (induction data arbitrary: c n w)
  case Nil
  then show ?case by (simp add: returnM_def)
next
  case (Cons x data)
  let ?step = "case flatten x of Inl e \<Rightarrow> raiseM e | Inr row \<Rightarrow> execute_insert c row"
  from Cons.prems have "bindM ?step (\<lambda>c'. insert_records c' (n + 1) data) w = (Inl e, w')"
    by simp
  then show ?case
  proof (cases rule: bindM_cases)
    case (fail e')
    then show ?thesis using insert_step_Inl by blast
  next
    case (ok c1 w1)
    then show ?thesis using Cons.IH by blast
  qed
qed

lemma insert_records_fails:
  "\<exists>r\<in>set data. record_fails r \<Longrightarrow> \<exists>e w'. insert_records c n data w = (Inl e, w')"
proof (induction data arbitrary: c n w)
  case Nil
  then show ?case by simp
next
  case (Cons x data)
  let ?step = "case flatten x of Inl e \<Rightarrow> raiseM e | Inr row \<Rightarrow> execute_insert c row"
  show ?case
  proof (cases "?step w")
    case (Pair r1 w1)
    show ?thesis
    proof (cases r1)
      case (Inl e)
      with Pair show ?thesis by (simp add: bindM_def)
    next
      case (Inr c1)
      with Pair insert_step_fails[of x c w] have "\<not> record_fails x" by auto
      with Cons.prems have "\<exists>r\<in>set data. record_fails r" by simp
      from Cons.IH[OF this, of c1 "n + 1" w1] Pair Inr show ?thesis by (simp add: bindM_def)
    qed
  qed
qed

lemma get_db_connection_Inl:
  "get_db_connection w = (Inl e, w') \<Longrightarrow> e \<noteq> JSONDecodeError"
  by (auto simp: get_db_connection_def open_conn_def bindM_def backend_call_def
      split: deployment.splits option.splits prod.splits sum.splits list.splits if_splits)

lemma upload_500:
  assumes "endswith filename ''.json''" and "upload_body content w = (Inl e, w')"
    and "e \<noteq> JSONDecodeError"
  shows "upload_session_data filename content w =
           (Inl (HTTPException 500 ''Error processing file: '' (Some e)), w')"
  using assms by (cases e) (simp_all add: upload_session_data_def)

lemma upload_body_loop_fails:
  assumes c: "get_db_connection w = (Inr c, w1)"
    and l: "insert_records c 0 data w1 = (Inl e, w2)"
  shows "upload_body (Parsed (JArr data)) w = (Inl e, w2)"
  using c l by (simp add: upload_body_def bindM_def)

text \<open>
  C7. For every uploaded batch that is a sequence: if some element cannot be processed
  (its parameter tuple raises, as for an element that is not an object, or it has no
  \<open>session_id\<close>), the call ends in a failure (status 500) and the table is as it was;
  and whenever the insert loop raises at any element for any reason, a statement the
  backend refuses included, the call ends in that failure and the table is as it was.
\<close>

theorem upload_all_or_nothing:
  assumes "endswith filename ''.json''"
  shows "((\<exists>r\<in>set data. record_fails r) \<longrightarrow>
            (\<exists>e w'. upload_session_data filename (Parsed (JArr data)) w =
                       (Inl (HTTPException 500 ''Error processing file: '' (Some e)), w')
                     \<and> rows w' = rows w))
         \<and> (get_db_connection w = (Inr c, w1) \<and> insert_records c 0 data w1 = (Inl e, w2) \<longrightarrow>
            upload_session_data filename (Parsed (JArr data)) w =
              (Inl (HTTPException 500 ''Error processing file: '' (Some e)), w2)
            \<and> rows w2 = rows w)"
proof (intro conjI impI)
  assume bad: "\<exists>r\<in>set data. record_fails r"
  show "\<exists>e w'. upload_session_data filename (Parsed (JArr data)) w =
                   (Inl (HTTPException 500 ''Error processing file: '' (Some e)), w')
                 \<and> rows w' = rows w"
  proof (cases "get_db_connection w")
    case (Pair r0 w0)
    show ?thesis
    proof (cases r0)
      case (Inl e0)
      with Pair have "upload_body (Parsed (JArr data)) w = (Inl e0, w0)"
        by (simp add: upload_body_def bindM_def)
      moreover have "e0 \<noteq> JSONDecodeError"
        using Pair Inl get_db_connection_Inl by blast
      moreover have "rows w0 = rows w"
        using Pair get_db_connection_frame by blast
      ultimately show ?thesis using upload_500[OF assms] by blast
    next
      case (Inr c0)
      from insert_records_fails[OF bad, of c0 0 w0]
      obtain e0 w0' where l: "insert_records c0 0 data w0 = (Inl e0, w0')" by blast
      from Pair Inr have c0: "get_db_connection w = (Inr c0, w0)" by simp
      have "upload_body (Parsed (JArr data)) w = (Inl e0, w0')"
        by (rule upload_body_loop_fails[OF c0 l])
      moreover have "e0 \<noteq> JSONDecodeError"
        using insert_records_Inl[OF l] by auto
      moreover have "rows w0' = rows w"
        using insert_records_frame[OF l] get_db_connection_frame[OF c0] by simp
      ultimately show ?thesis using upload_500[OF assms] by blast
    qed
  qed
next
  assume h: "get_db_connection w = (Inr c, w1) \<and> insert_records c 0 data w1 = (Inl e, w2)"
  then have "upload_body (Parsed (JArr data)) w = (Inl e, w2)"
    using upload_body_loop_fails by blast
  moreover have "e \<noteq> JSONDecodeError"
    using h insert_records_Inl by blast
  ultimately show "upload_session_data filename (Parsed (JArr data)) w =
              (Inl (HTTPException 500 ''Error processing file: '' (Some e)), w2)"
    using upload_500[OF assms] by blast
next
  assume h: "get_db_connection w = (Inr c, w1) \<and> insert_records c 0 data w1 = (Inl e, w2)"
  then show "rows w2 = rows w"
    using insert_records_frame get_db_connection_frame by metis
qed

theorem upload_all_or_nothing_witness:
  "endswith ''data.json'' ''.json''
   \<and> record_fails (JNum 5)
   \<and> upload_session_data ''data.json'' (Parsed (JArr [partial_record, JNum 5])) one_session_store
       = (Inl (HTTPException 500 ''Error processing file: '' (Some AttributeError)),
          one_session_store\<lparr>conns_opened := 1\<rparr>)
   \<and> rows (one_session_store\<lparr>conns_opened := 1\<rparr>) = rows one_session_store"
proof -
  have h: "endswith ''data.json'' ''.json''"
    by (simp add: endswith_def)
  have f: "record_fails (JNum 5)"
    by (simp add: record_fails_def flatten_def get1_def py_get_def)
  have c: "get_db_connection one_session_store =
             (Inr \<lparr>conn_backend = SQLite, pending_clear = False, pending_rows = []\<rparr>,
              one_session_store\<lparr>conns_opened := 1\<rparr>)"
    by (simp add: one_session_store_def get_db_connection_def open_conn_def bindM_def
        backend_call_def)
  have l: "insert_records \<lparr>conn_backend = SQLite, pending_clear = False, pending_rows = []\<rparr> 0
             [partial_record, JNum 5] (one_session_store\<lparr>conns_opened := 1\<rparr>)
           = (Inl AttributeError, one_session_store\<lparr>conns_opened := 1\<rparr>)"
  proof -
    have fl: "flatten partial_record = Inr (flat_of partial_record)"
      by (rule flatten_nested[OF nested_partial_record])
    have nn: "session_id (flat_of partial_record) \<noteq> JNull"
      by (simp add: flat_of_def leaf_or_null_def partial_record_def)
    have f5: "flatten (JNum 5) = Inl AttributeError"
      by (simp add: flatten_def get1_def py_get_def)
    have q: "faults one_session_store = []"
      by (simp add: one_session_store_def)
    show ?thesis
      by (simp add: fl nn f5 q execute_insert_def bindM_def backend_call_def raiseM_def)
  qed
  from upload_all_or_nothing[OF h, of "[partial_record, JNum 5]" one_session_store
      "\<lparr>conn_backend = SQLite, pending_clear = False, pending_rows = []\<rparr>"
      "one_session_store\<lparr>conns_opened := 1\<rparr>" AttributeError
      "one_session_store\<lparr>conns_opened := 1\<rparr>"] c l h f
  show ?thesis by simp
qed

lemma length_new_rows [simp]: "length (new_rows k t data) = length data"
  by (induction data arbitrary: k) simp_all













end
